theory Spec2Isabelle
  imports Complex_Main
begin

section \<open>The music player of pomop (\<open>www/modules/music.js\<close>)\<close>

text \<open>
  A shallow embedding of the class \<open>MusicPlayer\<close>. The object's fields are a record that
  every method takes and returns. What the host environment supplies is written out:
  the audio element as the fields the player reads and writes, \<open>localStorage\<close> as a map
  from keys to texts, the clock and the random generator as arguments of the methods
  that read them, and the subscribers of \<open>on\<close> as the log of the events handed to
  \<open>emit\<close>, in order (the subscribers of \<open>app.js\<close> only redraw the page).
\<close>

subsection \<open>Numbers\<close>

text \<open>
  A number of the language is an IEEE double, here the real it denotes. The \<open>+\<close> and
  \<open>*\<close> of two numbers are the exact result rounded to the nearest double, ties to the
  even significand: 53 bits of significand, the quantum 2^(e - 52) in the binade
  2^e \<le> |x| < 2^(e + 1), and 2^-1074 below 2^-1022. \<open>bit_length\<close> counts the binary digits
  of a natural number, \<open>binade\<close> is the exponent e. Results of magnitude 2^1024 and more,
  which would be infinite, are far from any value of the clock and are not modelled.
\<close>

fun bit_length :: "nat \<Rightarrow> nat" where
  "bit_length n = (if n = 0 then 0 else Suc (bit_length (n div 2)))"

declare bit_length.simps [simp del]

definition binade :: "real \<Rightarrow> int" where
  "binade x =
     (if \<bar>x\<bar> \<ge> 1 then int (bit_length (nat \<lfloor>\<bar>x\<bar>\<rfloor>)) - 1
      else - int (bit_length (nat (\<lceil>1 / \<bar>x\<bar>\<rceil> - 1))))"

definition pow2 :: "int \<Rightarrow> real" where
  "pow2 k = (if k \<ge> 0 then 2 ^ nat k else 1 / 2 ^ nat (- k))"

definition round_ties_even :: "real \<Rightarrow> int" where
  "round_ties_even x =
     (let f = \<lfloor>x\<rfloor>; d = x - of_int f in
      if d < 1 / 2 then f
      else if d > 1 / 2 then f + 1
      else if even f then f else f + 1)"

definition double :: "real \<Rightarrow> real" where
  "double x =
     (let q = pow2 (max (binade x) (- 1022) - 52)
      in of_int (round_ties_even (x / q)) * q)"

subsection \<open>Tracks and JSON values\<close>

text \<open>
  A track is the object literal built in \<open>addTrack\<close>: \<open>{id, name, fileName, path, duration}\<close>
  or \<open>{id, name, fileName, data, duration}\<close>. A property that the literal does not have
  reads as \<open>undefined\<close>, here \<open>None\<close>. The field \<open>id\<close> is called \<open>track_id\<close>
  (\<open>id\<close> is the identity function of HOL). A number is the real that an IEEE double
  denotes.
\<close>

record track =
  track_id :: real
  name :: string
  fileName :: string
  path :: "string option"
  data :: "string option"
  duration :: real

datatype json =
    JNull
  | JBool bool
  | JNum real
  | JStr string
  | JArr "json list"
  | JObj "(string \<times> json) list"

text \<open>
  A string held by \<open>localStorage\<close>, as far as the player can tell texts apart: a text that
  \<open>JSON.parse\<close> accepts is kept as the value it denotes, the empty string is the one
  falsy text, and every other text makes \<open>JSON.parse\<close> throw. \<open>JSON.stringify\<close> of a
  value yields a text that denotes it (ECMA-262, for finite numbers and strings).
\<close>

datatype stored = JSONText json | EmptyText | BadText

definition JSON_stringify :: "json \<Rightarrow> stored" where
  "JSON_stringify v = JSONText v"

text \<open>\<open>None\<close>: \<open>JSON.parse\<close> throws a SyntaxError.\<close>

fun JSON_parse :: "stored \<Rightarrow> json option" where
  "JSON_parse (JSONText v) = Some v"
| "JSON_parse EmptyText = None"
| "JSON_parse BadText = None"

fun truthy_text :: "stored \<Rightarrow> bool" where
  "truthy_text EmptyText = False"
| "truthy_text _ = True"

fun truthy :: "string option \<Rightarrow> bool" where
  "truthy None = False"
| "truthy (Some s) = (s \<noteq> [])"

text \<open>
  What \<open>JSON.stringify\<close> makes of a track: the properties of the literal in their order,
  a property that is \<open>undefined\<close> left out.
\<close>

definition opt_prop :: "string \<Rightarrow> string option \<Rightarrow> (string \<times> json) list" where
  "opt_prop k v = (case v of None \<Rightarrow> [] | Some s \<Rightarrow> [(k, JStr s)])"

definition json_of_track :: "track \<Rightarrow> json" where
  "json_of_track t =
     JObj ([(''id'', JNum (track_id t)), (''name'', JStr (name t)),
            (''fileName'', JStr (fileName t))]
           @ opt_prop ''path'' (path t) @ opt_prop ''data'' (data t)
           @ [(''duration'', JNum (duration t))])"

text \<open>
  The typed reading of a parsed value, by the properties the player reads from a track
  (\<open>t.id\<close>, \<open>t.name\<close>, \<open>t.fileName\<close>, \<open>track.path\<close>, \<open>track.data\<close>). \<open>None\<close>: the value is
  not an array of such objects; the player would hold it all the same, and no record
  of this model describes it.
\<close>

fun str_prop :: "json option \<Rightarrow> string option option" where
  "str_prop None = Some None"
| "str_prop (Some (JStr s)) = Some (Some s)"
| "str_prop (Some _) = None"

fun track_of_json :: "json \<Rightarrow> track option" where
  "track_of_json (JObj ps) =
     (case (map_of ps ''id'', map_of ps ''name'', map_of ps ''fileName'',
            str_prop (map_of ps ''path''), str_prop (map_of ps ''data''),
            map_of ps ''duration'') of
        (Some (JNum i), Some (JStr n), Some (JStr f), Some p, Some d, Some (JNum u)) \<Rightarrow>
          Some \<lparr>track_id = i, name = n, fileName = f, path = p, data = d, duration = u\<rparr>
      | _ \<Rightarrow> None)"
| "track_of_json _ = None"

fun tracks_of_jsons :: "json list \<Rightarrow> track list option" where
  "tracks_of_jsons [] = Some []"
| "tracks_of_jsons (v # vs) =
     (case track_of_json v of
        None \<Rightarrow> None
      | Some t \<Rightarrow> (case tracks_of_jsons vs of None \<Rightarrow> None | Some ts \<Rightarrow> Some (t # ts)))"

fun playlist_of_json :: "json \<Rightarrow> track list option" where
  "playlist_of_json (JArr vs) = tracks_of_jsons vs"
| "playlist_of_json _ = None"

subsection \<open>The host: storage and the audio element\<close>

text \<open>
  \<open>setItem\<close> throws when the store is over its quota, \<open>accepts\<close> says for which writes
  it is not; with \<open>denied\<close> every access throws. \<open>None\<close> is the thrown exception.
\<close>

record storage =
  items :: "string \<rightharpoonup> stored"
  accepts :: "string \<Rightarrow> stored \<Rightarrow> bool"
  denied :: bool

definition setItem :: "storage \<Rightarrow> string \<Rightarrow> stored \<Rightarrow> storage option" where
  "setItem s k v =
     (if denied s then None
      else if accepts s k v then Some (s\<lparr>items := (items s)(k \<mapsto> v)\<rparr>)
      else None)"

text \<open>The outer \<open>None\<close> is the exception, the inner one the \<open>null\<close> of a missing key.\<close>

definition getItem :: "storage \<Rightarrow> string \<Rightarrow> stored option option" where
  "getItem s k = (if denied s then None else Some (items s k))"

text \<open>
  The audio element: \<open>pause()\<close> sets \<open>paused\<close>, \<open>play()\<close> clears it and returns a promise
  that the host settles later. A new element is paused at time 0 with no source.
\<close>

record audio =
  src :: "string option"
  currentTime :: real
  paused :: bool

definition new_Audio :: audio where
  "new_Audio = \<lparr>src = None, currentTime = 0, paused = True\<rparr>"

definition audio_play :: "audio \<Rightarrow> audio" where
  "audio_play a = a\<lparr>paused := False\<rparr>"

definition audio_pause :: "audio \<Rightarrow> audio" where
  "audio_pause a = a\<lparr>paused := True\<rparr>"

subsection \<open>The player\<close>

datatype repeat_mode = RepeatNone | RepeatOne | RepeatAll

datatype event =
    Trackadded track
  | Trackremoved real
  | Trackchange track int
  | Play int
  | Pause int
  | Stop
  | Shufflechange bool
  | Repeatchange repeat_mode
  | Playlistcleared
  | Error string

record player =
  playlist :: "track list"
  currentTrackIndex :: int
  audio :: audio
  isPlaying :: bool
  shuffle :: bool
  repeat :: repeat_mode
  emitted :: "event list"
  localStorage :: storage

definition emit :: "event \<Rightarrow> player \<Rightarrow> player" where
  "emit e st = st\<lparr>emitted := emitted st @ [e]\<rparr>"

subsubsection \<open>Persistence\<close>

definition metadataOnly :: "track \<Rightarrow> json" where
  "metadataOnly t =
     JObj [(''id'', JNum (track_id t)), (''name'', JStr (name t)),
           (''fileName'', JStr (fileName t))]"

definition savePlaylist :: "player \<Rightarrow> player" where
  "savePlaylist st =
     (case setItem (localStorage st) ''pomop-music-playlist''
             (JSON_stringify (JArr (map json_of_track (playlist st)))) of
        Some s \<Rightarrow> st\<lparr>localStorage := s\<rparr>
      | None \<Rightarrow>
          (case setItem (localStorage st) ''pomop-music-playlist-meta''
                  (JSON_stringify (JArr (map metadataOnly (playlist st)))) of
             Some s \<Rightarrow> st\<lparr>localStorage := s\<rparr>
           | None \<Rightarrow> st))"

text \<open>
  \<open>loadPlaylist\<close>: every exception is caught and leaves the list as it is, and so do
  \<open>null\<close> (no record under the key) and the empty text, both falsy. The result is \<open>None\<close>
  only where the parsed value is not a list of tracks (see \<open>playlist_of_json\<close>).
\<close>

definition loadPlaylist :: "player \<Rightarrow> player option" where
  "loadPlaylist st =
     (case getItem (localStorage st) ''pomop-music-playlist'' of
        None \<Rightarrow> Some st
      | Some None \<Rightarrow> Some st
      | Some (Some stored) \<Rightarrow>
          if truthy_text stored then
            (case JSON_parse stored of
               None \<Rightarrow> Some st
             | Some v \<Rightarrow>
                 (case playlist_of_json v of
                    None \<Rightarrow> None
                  | Some ts \<Rightarrow> Some (st\<lparr>playlist := ts\<rparr>)))
          else Some st)"

text \<open>The constructor, given the store of the page.\<close>

definition MusicPlayer :: "storage \<Rightarrow> player option" where
  "MusicPlayer s =
     loadPlaylist \<lparr>playlist = [], currentTrackIndex = - 1, audio = new_Audio,
                   isPlaying = False, shuffle = False, repeat = RepeatNone,
                   emitted = [], localStorage = s\<rparr>"

subsubsection \<open>Transport\<close>

definition stop :: "player \<Rightarrow> player" where
  "stop st =
     emit Stop (st\<lparr>audio := (audio_pause (audio st))\<lparr>currentTime := 0\<rparr>,
                   currentTrackIndex := - 1\<rparr>)"

definition pause :: "player \<Rightarrow> player" where
  "pause st = st\<lparr>audio := audio_pause (audio st)\<rparr>"

text \<open>
  \<open>playTrack\<close> returns before the promise of \<open>play()\<close> settles; when the host rejects
  it, the handler given to \<open>catch\<close> runs as a later job: \<open>playTrack_catch\<close>, with the
  message of the error.
\<close>

definition playTrack :: "int \<Rightarrow> player \<Rightarrow> player" where
  "playTrack index st =
     (if index < 0 \<or> index \<ge> int (length (playlist st)) then st
      else
        let track = playlist st ! nat index;
            a = (audio st)\<lparr>src := (if truthy (path track) then path track else data track)\<rparr>
        in emit (Trackchange track index)
             (st\<lparr>currentTrackIndex := index, audio := audio_play a\<rparr>))"

definition playTrack_catch :: "string \<Rightarrow> player \<Rightarrow> player" where
  "playTrack_catch message st = emit (Error (''Failed to play track: '' @ message)) st"

definition togglePlay :: "player \<Rightarrow> player" where
  "togglePlay st =
     (if length (playlist st) = 0 then st
      else if isPlaying st then pause st
      else if currentTrackIndex st = - 1 then playTrack 0 st
      else st\<lparr>audio := audio_play (audio st)\<rparr>)"

text \<open>\<open>next\<close>, with the value \<open>Math.random()\<close> returns, a double in [0, 1).\<close>

definition next_track :: "real \<Rightarrow> player \<Rightarrow> player" where
  "next_track rnd st =
     (if length (playlist st) = 0 then st
      else if shuffle st then playTrack \<lfloor>double (rnd * real (length (playlist st)))\<rfloor> st
      else
        let nextIndex = currentTrackIndex st + 1 in
        if nextIndex \<ge> int (length (playlist st)) then
          (if repeat st = RepeatAll then playTrack 0 st else stop st)
        else playTrack nextIndex st)"

definition previous :: "player \<Rightarrow> player" where
  "previous st =
     (if length (playlist st) = 0 then st
      else if currentTime (audio st) > 3 then
        st\<lparr>audio := (audio st)\<lparr>currentTime := 0\<rparr>\<rparr>
      else
        let prevIndex = currentTrackIndex st - 1 in
        if prevIndex < 0 then
          (if repeat st = RepeatAll then playTrack (int (length (playlist st)) - 1) st
           else playTrack 0 st)
        else playTrack prevIndex st)"

subsubsection \<open>Removing a track\<close>

text \<open>\<open>Array.prototype.findIndex\<close>: the first index that satisfies the test, or -1.\<close>

fun findIndex :: "('a \<Rightarrow> bool) \<Rightarrow> 'a list \<Rightarrow> int" where
  "findIndex P [] = - 1"
| "findIndex P (x # xs) =
     (if P x then 0 else (let r = findIndex P xs in if r = - 1 then - 1 else r + 1))"

text \<open>\<open>splice(index, 1)\<close> for an index inside the list.\<close>

definition splice1 :: "int \<Rightarrow> 'a list \<Rightarrow> 'a list" where
  "splice1 index xs = take (nat index) xs @ drop (nat index + 1) xs"

definition removeTrack :: "real \<Rightarrow> player \<Rightarrow> player" where
  "removeTrack trackId st =
     (let index = findIndex (\<lambda>t. track_id t = trackId) (playlist st) in
      if index = - 1 then st
      else
        let st1 = (if index = currentTrackIndex st then stop st else st);
            st2 = st1\<lparr>playlist := splice1 index (playlist st1)\<rparr>;
            st3 = (if currentTrackIndex st2 > index
                   then st2\<lparr>currentTrackIndex := currentTrackIndex st2 - 1\<rparr> else st2)
        in emit (Trackremoved trackId) (savePlaylist st3))"

definition clearPlaylist :: "player \<Rightarrow> player" where
  "clearPlaylist st = emit Playlistcleared (savePlaylist ((stop st)\<lparr>playlist := []\<rparr>))"

subsubsection \<open>Modes and the listeners on the audio element\<close>

definition toggleShuffle :: "player \<Rightarrow> bool \<times> player" where
  "toggleShuffle st =
     (let st1 = st\<lparr>shuffle := \<not> shuffle st\<rparr>
      in (shuffle st1, emit (Shufflechange (shuffle st1)) st1))"

fun next_mode :: "repeat_mode \<Rightarrow> repeat_mode" where
  "next_mode RepeatNone = RepeatOne"
| "next_mode RepeatOne = RepeatAll"
| "next_mode RepeatAll = RepeatNone"

definition toggleRepeat :: "player \<Rightarrow> repeat_mode \<times> player" where
  "toggleRepeat st =
     (let st1 = st\<lparr>repeat := next_mode (repeat st)\<rparr>
      in (repeat st1, emit (Repeatchange (repeat st1)) st1))"

definition on_ended :: "real \<Rightarrow> player \<Rightarrow> player" where
  "on_ended rnd st =
     (if repeat st = RepeatOne
      then st\<lparr>audio := audio_play ((audio st)\<lparr>currentTime := 0\<rparr>)\<rparr>
      else next_track rnd st)"

definition on_play :: "player \<Rightarrow> player" where
  "on_play st = emit (Play (currentTrackIndex st)) (st\<lparr>isPlaying := True\<rparr>)"

definition on_pause :: "player \<Rightarrow> player" where
  "on_pause st = emit (Pause (currentTrackIndex st)) (st\<lparr>isPlaying := False\<rparr>)"

subsubsection \<open>Adding a track\<close>

text \<open>
  The file handle: its name and, under Electron, its path. \<open>FileReader\<close> ends a read
  either with \<open>onload\<close> and the data URL or with \<open>onerror\<close>, its \<open>error\<close> carrying a
  message of its own.
\<close>

record file_handle =
  file_name :: string
  file_path :: "string option"

datatype read = Loaded string | Failed string

datatype 'a promise = Resolved 'a | Rejected string

text \<open>
  \<open>name.replace(/\.[^/.]+$/, '')\<close>: the pattern matches only at the last dot, and only
  if at least one character follows it and none of them is a slash.
\<close>

definition strip_extension :: "string \<Rightarrow> string" where
  "strip_extension s =
     (let ext = takeWhile (\<lambda>c. c \<noteq> CHR ''.'') (rev s) in
      if length ext < length s \<and> ext \<noteq> [] \<and> CHR ''/'' \<notin> set ext
      then take (length s - length ext - 1) s else s)"

text \<open>
  \<open>addTrack\<close>, with the values of \<open>Date.now()\<close> and \<open>Math.random()\<close> where the track is
  built: an integer number of milliseconds, of magnitude below 2^53, and a double in
  [0, 1), so the id \<open>Date.now() + Math.random()\<close> is the double of their exact sum.
  Without a path nothing happens before the reader finishes, so the player given
  is the one at that moment, and \<open>r\<close> is how the read ends.
\<close>

definition addTrack :: "file_handle \<Rightarrow> read \<Rightarrow> int \<Rightarrow> real \<Rightarrow> player \<Rightarrow> track promise \<times> player" where
  "addTrack file r now rnd st =
     (if truthy (file_path file) then
        let track = \<lparr>track_id = double (of_int now + rnd), name = strip_extension (file_name file),
                     fileName = file_name file, path = file_path file, data = None,
                     duration = 0\<rparr>;
            st1 = st\<lparr>playlist := playlist st @ [track]\<rparr>
        in (Resolved track, emit (Trackadded track) (savePlaylist st1))
      else
        (case r of
           Loaded result \<Rightarrow>
             let track = \<lparr>track_id = double (of_int now + rnd),
                          name = strip_extension (file_name file),
                          fileName = file_name file, path = None, data = Some result,
                          duration = 0\<rparr>;
                 st1 = st\<lparr>playlist := playlist st @ [track]\<rparr>
             in (Resolved track, emit (Trackadded track) (savePlaylist st1))
         | Failed message \<Rightarrow> (Rejected ''Failed to read file'', st)))"

text \<open>A run of calls, each finished before the next, as the upload handler makes them.\<close>

fun addTracks :: "(file_handle \<times> read \<times> int \<times> real) list \<Rightarrow> player \<Rightarrow> player" where
  "addTracks [] st = st"
| "addTracks ((file, r, now, rnd) # calls) st =
     addTracks calls (snd (addTrack file r now rnd st))"

subsection \<open>\<open>getPlaylist\<close> and the identity of arrays\<close>

text \<open>
  The record above holds the playlist by value. What a caller can do with the array that
  \<open>getPlaylist\<close> returns depends on which array it is, so here arrays and tracks are
  objects of a store: an address is an index, an array holds the addresses of its
  tracks, and a new array gets the next free address. \<open>getPlaylist p\<close> is
  \<open>[...this.playlist]\<close> with \<open>this.playlist\<close> at address \<open>p\<close>; \<open>None\<close> if there is no
  array at \<open>p\<close>.
\<close>

record store =
  arrays :: "nat list list"
  objects :: "track list"

definition getPlaylist :: "nat \<Rightarrow> store \<Rightarrow> (nat \<times> store) option" where
  "getPlaylist p h =
     (if p < length (arrays h)
      then Some (length (arrays h), h\<lparr>arrays := arrays h @ [arrays h ! p]\<rparr>)
      else None)"

text \<open>
  Any change a caller makes to the array at \<open>r\<close> (\<open>push\<close>, \<open>splice\<close>, \<open>sort\<close>, an
  assignment to an index or to \<open>length\<close>) replaces its elements by some function of them.
\<close>

definition mutate :: "nat \<Rightarrow> (nat list \<Rightarrow> nat list) \<Rightarrow> store \<Rightarrow> store" where
  "mutate r f h =
     (if r < length (arrays h) then h\<lparr>arrays := (arrays h)[r := f (arrays h ! r)]\<rparr> else h)"

fun mutates :: "nat \<Rightarrow> (nat list \<Rightarrow> nat list) list \<Rightarrow> store \<Rightarrow> store" where
  "mutates r [] h = h"
| "mutates r (f # fs) h = mutates r fs (mutate r f h)"

text \<open>The tracks of the array at \<open>p\<close>, as the player reads them.\<close>

definition tracks_at :: "store \<Rightarrow> nat \<Rightarrow> track list" where
  "tracks_at h p = map (\<lambda>a. objects h ! a) (arrays h ! p)"

subsection \<open>Sample values\<close>

definition open_storage :: storage where
  "open_storage = \<lparr>items = Map.empty, accepts = (\<lambda>k v. True), denied = False\<rparr>"

definition song :: "real \<Rightarrow> track" where
  "song i = \<lparr>track_id = i, name = ''song'', fileName = ''song.mp3'',
             path = Some ''/music/song.mp3'', data = None, duration = 0\<rparr>"

text \<open>
  A store that holds an older playlist record and has room only for the small
  metadata record.
\<close>

definition tight_storage :: storage where
  "tight_storage =
     \<lparr>items = [''pomop-music-playlist'' \<mapsto> JSON_stringify (JArr [json_of_track (song 9)])],
      accepts = (\<lambda>k v. k = ''pomop-music-playlist-meta''), denied = False\<rparr>"

definition sample_player :: "int \<Rightarrow> repeat_mode \<Rightarrow> storage \<Rightarrow> player" where
  "sample_player c m s =
     \<lparr>playlist = [song 1, song 2, song 3], currentTrackIndex = c,
      audio = \<lparr>src = Some ''/music/song.mp3'', currentTime = 2, paused = False\<rparr>,
      isPlaying = True, shuffle = False, repeat = m, emitted = [], localStorage = s\<rparr>"

definition empty_player :: player where
  "empty_player =
     \<lparr>playlist = [], currentTrackIndex = - 1, audio = new_Audio, isPlaying = False,
      shuffle = False, repeat = RepeatNone, emitted = [], localStorage = open_storage\<rparr>"

definition web_file :: file_handle where
  "web_file = \<lparr>file_name = ''tune.ogg'', file_path = None\<rparr>"

definition desktop_file :: file_handle where
  "desktop_file = \<lparr>file_name = ''tune.ogg'', file_path = Some ''/home/u/tune.ogg''\<rparr>"

text \<open>A playlist of one track with a path and one with embedded data.\<close>

definition mixed_player :: player where
  "mixed_player =
     addTracks [(desktop_file, Loaded [], 1000, 1 / 2),
                (web_file, Loaded ''data:audio/ogg;base64,T2dnUw=='', 1001, 1 / 4)]
       empty_player"

text \<open>
  Two files added at the same clock value with the same random value, the second of
  them playing.
\<close>

definition twin_player :: player where
  "twin_player =
     playTrack 1
       (addTracks [(desktop_file, Loaded [], 1000, 1 / 2), (desktop_file, Loaded [], 1000, 1 / 2)]
          empty_player)"

definition sample_store :: store where
  "sample_store = \<lparr>arrays = [[0, 1]], objects = [song 1, song 2]\<rparr>"

section \<open>Properties\<close>

subsection \<open>Auxiliary facts\<close>

lemma findIndex_first:
  "i < length xs \<Longrightarrow> P (xs ! i) \<Longrightarrow> \<forall>j<i. \<not> P (xs ! j) \<Longrightarrow> findIndex P xs = int i"
proof (induction xs arbitrary: i)
  case Nil
  then show ?case by simp
next
  case (Cons x xs)
  show ?case
  proof (cases i)
    case 0
    with Cons.prems show ?thesis by simp
  next
    case (Suc k)
    from Cons.prems Suc have nx: "\<not> P x" by auto
    from Cons.prems Suc have "k < length xs" "P (xs ! k)" by auto
    moreover from Cons.prems Suc have "\<forall>j<k. \<not> P (xs ! j)" by auto
    ultimately have "findIndex P xs = int k" by (rule Cons.IH)
    with nx Suc show ?thesis by (simp add: Let_def)
  qed
qed

lemma findIndex_no_earlier:
  assumes "i < length xs" and "f (xs ! i) \<notin> f ` set (take i xs)"
  shows "findIndex (\<lambda>t. f t = f (xs ! i)) xs = int i"
proof (rule findIndex_first)
  show "i < length xs" by fact
  show "f (xs ! i) = f (xs ! i)" by simp
  show "\<forall>j<i. f (xs ! j) \<noteq> f (xs ! i)"
  proof (intro allI impI)
    fix j assume j: "j < i"
    with assms(1) have "take i xs ! j = xs ! j" and "j < length (take i xs)" by simp_all
    then have "xs ! j \<in> set (take i xs)" by (metis nth_mem)
    then have "f (xs ! j) \<in> f ` set (take i xs)" by (rule imageI)
    with assms(2) show "f (xs ! j) \<noteq> f (xs ! i)" by metis
  qed
qed

lemma savePlaylist_fields:
  "playlist (savePlaylist st) = playlist st"
  "currentTrackIndex (savePlaylist st) = currentTrackIndex st"
  "audio (savePlaylist st) = audio st"
  "emitted (savePlaylist st) = emitted st"
  by (simp_all add: savePlaylist_def split: option.splits)

lemma savePlaylist_host:
  "denied (localStorage (savePlaylist st)) = denied (localStorage st)"
  "accepts (localStorage (savePlaylist st)) = accepts (localStorage st)"
  by (auto simp: savePlaylist_def setItem_def split: option.splits if_splits)

lemma addTrack_host:
  "denied (localStorage (snd (addTrack file r now rnd st))) = denied (localStorage st)"
  "accepts (localStorage (snd (addTrack file r now rnd st))) = accepts (localStorage st)"
  by (simp_all add: addTrack_def Let_def emit_def savePlaylist_host split: read.splits)

lemma playTrack_valid:
  assumes "0 \<le> i" and "i < int (length (playlist st))"
  shows "currentTrackIndex (playTrack i st) = i"
    and "emitted (playTrack i st) = emitted st @ [Trackchange (playlist st ! nat i) i]"
    and "\<not> paused (audio (playTrack i st))"
    and "src (audio (playTrack i st)) =
           (if truthy (path (playlist st ! nat i)) then path (playlist st ! nat i)
            else data (playlist st ! nat i))"
    and "playlist (playTrack i st) = playlist st"
  using assms by (simp_all add: playTrack_def emit_def Let_def audio_play_def)

lemma previous_underflow:
  assumes "playlist st \<noteq> []" and "currentTime (audio st) \<le> 3"
    and "currentTrackIndex st - 1 < 0"
  shows "previous st =
           playTrack (if repeat st = RepeatAll then int (length (playlist st)) - 1 else 0) st"
  using assms by (simp add: previous_def Let_def)

lemma addTrack_ids:
  "map track_id (playlist (snd (addTrack file r now rnd st))) = map track_id (playlist st)
   \<or> map track_id (playlist (snd (addTrack file r now rnd st)))
       = map track_id (playlist st) @ [double (of_int now + rnd)]"
  by (simp add: addTrack_def Let_def emit_def savePlaylist_fields split: read.splits)

lemma bit_length_values:
  "bit_length 1000 = 10" "bit_length 1001 = 10" "bit_length 1700000000000 = 41"
  by (simp_all add: bit_length.simps)

lemma double_sums:
  "double (1000 + 1 / 2) = 1000 + 1 / 2"
  "double (1000 + 1 / 4) = 1000 + 1 / 4"
  "double (1001 + 1 / 4) = 1001 + 1 / 4"
  by (simp_all add: double_def binade_def bit_length_values pow2_def round_ties_even_def
      Let_def)

lemma double_exact:
  "double (2001 / 2) = 2001 / 2"
  "double (4001 / 4) = 4001 / 4"
  "double (4005 / 4) = 4005 / 4"
  using double_sums by simp_all

lemma double_absorbs:
  "double (1700000000000 + 1 / 2 ^ 30) = 1700000000000"
  "double (1700000000000 + 1 / 2 ^ 31) = 1700000000000"
  by (simp_all add: double_def binade_def bit_length_values pow2_def round_ties_even_def
      Let_def)

lemma distinct_grow:
  assumes "distinct (xs @ y # zs)" and "ys = xs \<or> ys = xs @ [y]"
  shows "distinct (ys @ zs)"
  using assms by auto

lemma track_of_json_of_track: "track_of_json (json_of_track t) = Some t"
  by (cases "path t"; cases "data t") (simp_all add: json_of_track_def opt_prop_def)

lemma tracks_of_jsons_map: "tracks_of_jsons (map json_of_track ts) = Some ts"
  by (induction ts) (simp_all add: track_of_json_of_track)

lemma loadPlaylist_primary_only:
  assumes "denied s' = denied s"
    and "items s' ''pomop-music-playlist'' = items s ''pomop-music-playlist''"
  shows "map_option playlist (loadPlaylist (p0\<lparr>localStorage := s'\<rparr>))
       = map_option playlist (loadPlaylist (p0\<lparr>localStorage := s\<rparr>))"
  using assms
  by (simp add: loadPlaylist_def getItem_def split: option.splits)

lemma MusicPlayer_primary_only:
  assumes "denied s' = denied s"
    and "items s' ''pomop-music-playlist'' = items s ''pomop-music-playlist''"
  shows "map_option playlist (MusicPlayer s') = map_option playlist (MusicPlayer s)"
  using loadPlaylist_primary_only [OF assms, of
      "\<lparr>playlist = [], currentTrackIndex = - 1, audio = new_Audio, isPlaying = False,
        shuffle = False, repeat = RepeatNone, emitted = [], localStorage = s\<rparr>"]
  by (simp add: MusicPlayer_def)

lemma savePlaylist_fallback_storage:
  assumes "setItem (localStorage st) ''pomop-music-playlist''
             (JSON_stringify (JArr (map json_of_track (playlist st)))) = None"
  shows "denied (localStorage (savePlaylist st)) = denied (localStorage st)"
    and "items (localStorage (savePlaylist st)) ''pomop-music-playlist''
           = items (localStorage st) ''pomop-music-playlist''"
  using assms
  by (auto simp: savePlaylist_def setItem_def split: option.splits if_splits)

lemma mutate_frame:
  assumes "p \<noteq> r"
  shows "arrays (mutate r f h) ! p = arrays h ! p"
    and "objects (mutate r f h) = objects h"
  using assms by (simp_all add: mutate_def)

lemma mutates_frame:
  assumes "p \<noteq> r"
  shows "arrays (mutates r fs h) ! p = arrays h ! p \<and> objects (mutates r fs h) = objects h"
  using assms
  by (induction fs arbitrary: h) (simp_all add: mutate_frame)

subsection \<open>Adding tracks\<close>

text \<open>
  C1, as the code has it: when the file has no path and the read fails, the promise is
  rejected with the fixed message \<open>Failed to read file\<close>, whatever message the read error
  carried, and the player is left exactly as it was: the playlist keeps its length and
  no \<open>trackadded\<close> is emitted.
\<close>

theorem addTrack_read_fails:
  assumes "\<not> truthy (file_path file)"
  shows "addTrack file (Failed message) now rnd st = (Rejected ''Failed to read file'', st)
       \<and> length (playlist (snd (addTrack file (Failed message) now rnd st)))
           = length (playlist st)
       \<and> emitted (snd (addTrack file (Failed message) now rnd st)) = emitted st"
  using assms by (simp add: addTrack_def)

theorem addTrack_read_fails_witness:
  "\<not> truthy (file_path web_file)
   \<and> addTrack web_file (Failed ''NotReadableError'') 1000 (1 / 2) empty_player
       = (Rejected ''Failed to read file'', empty_player)"
proof -
  have h: "\<not> truthy (file_path web_file)" by (simp add: web_file_def)
  from addTrack_read_fails [OF h, of "''NotReadableError''" 1000 "1 / 2" empty_player] h
  show ?thesis by blast
qed

text \<open>
  C1 as stated asks for the message of the underlying read error. A read that fails with
  \<open>NotReadableError\<close> is not rejected with that message.
\<close>

theorem addTrack_message_not_preserved:
  "fst (addTrack web_file (Failed ''NotReadableError'') 1000 (1 / 2) empty_player)
     \<noteq> Rejected ''NotReadableError''"
  by (simp add: addTrack_def web_file_def)

text \<open>
  C2, as the code has it: the id of a new track is the clock value plus the random
  value, a double, and nothing compares it with the ids in the list. After a run of
  \<open>addTrack\<close> calls the ids in the playlist are pairwise different provided the ids that
  were there and the doubles the calls compute are pairwise different.
\<close>

theorem addTracks_distinct_ids:
  assumes "distinct (map track_id (playlist st)
                     @ map (\<lambda>(file, r, now, rnd). double (of_int now + rnd)) calls)"
  shows "distinct (map track_id (playlist (addTracks calls st)))"
  using assms
proof (induction calls arbitrary: st)
  case Nil
  then show ?case by simp
next
  case (Cons c calls)
  obtain fl r now rnd where c: "c = (fl, r, now, rnd)" by (cases c) auto
  let ?st1 = "snd (addTrack fl r now rnd st)"
  let ?rest = "map (\<lambda>(file, r, now, rnd). double (of_int now + rnd)) calls"
  from Cons.prems c
  have d: "distinct (map track_id (playlist st) @ double (of_int now + rnd) # ?rest)" by simp
  have "distinct (map track_id (playlist ?st1) @ ?rest)"
    by (rule distinct_grow [OF d addTrack_ids])
  then have "distinct (map track_id (playlist (addTracks calls ?st1)))" by (rule Cons.IH)
  with c show ?case by simp
qed

theorem addTracks_distinct_ids_witness:
  "distinct (map track_id (playlist empty_player)
             @ map (\<lambda>(file, r, now, rnd). double (of_int now + rnd))
                 [(desktop_file, Loaded [], 1000, 1 / 2), (web_file, Loaded ''data:'', 1000, 1 / 4)])
   \<and> distinct (map track_id (playlist (addTracks
        [(desktop_file, Loaded [], 1000, 1 / 2), (web_file, Loaded ''data:'', 1000, 1 / 4)]
        empty_player)))"
proof -
  have h: "distinct (map track_id (playlist empty_player)
             @ map (\<lambda>(file, r, now, rnd). double (of_int now + rnd))
                 [(desktop_file, Loaded [], 1000, 1 / 2), (web_file, Loaded ''data:'', 1000, 1 / 4)])"
    by (simp add: empty_player_def double_exact)
  from addTracks_distinct_ids [OF h] h show ?thesis by simp
qed

text \<open>
  C2 as stated fails: two files added at the same clock value with the same random
  value get the same id, and both are in the playlist.
\<close>

theorem addTrack_duplicate_id:
  "\<not> distinct (map track_id (playlist (addTracks
        [(desktop_file, Loaded [], 1000, 1 / 2), (desktop_file, Loaded [], 1000, 1 / 2)]
        empty_player)))"
  by (simp add: addTrack_def desktop_file_def empty_player_def emit_def savePlaylist_fields
      Let_def)

text \<open>
  Different random values do not help where the sum is rounded to the same double: at
  a clock value of 1700000000000 the doubles are 2^-12 apart, and the random values
  2^-30 and 2^-31 both give the id 1700000000000.
\<close>

lemma addTrack_rounded_ids_collide:
  "map track_id (playlist (addTracks
        [(desktop_file, Loaded [], 1700000000000, 1 / 2 ^ 30),
         (desktop_file, Loaded [], 1700000000000, 1 / 2 ^ 31)]
        empty_player)) = [1700000000000, 1700000000000]"
proof -
  have "double (of_int 1700000000000 + 1 / 2 ^ 30) = 1700000000000"
    and "double (of_int 1700000000000 + 1 / 2 ^ 31) = 1700000000000"
    using double_absorbs by simp_all
  then show ?thesis
    by (simp add: addTrack_def desktop_file_def empty_player_def emit_def savePlaylist_fields
        Let_def)
qed

subsection \<open>Removing the current track\<close>

text \<open>
  C3, as the code has it: \<open>removeTrack\<close> looks the track up by its id and takes the first
  entry that has it. In a non-empty playlist, with the cursor on any track such that no
  entry before it has the same id (so whenever the ids are pairwise different),
  \<open>removeTrack\<close> with the id of that track finds it, stops playback first (the element
  is paused and rewound to 0, the cursor is -1, \<open>stop\<close> is emitted), removes the track,
  and the test of the decrement step (cursor greater than the removed index) is false
  at the sentinel, so the cursor is still -1 afterwards.
\<close>

theorem removeTrack_current:
  assumes "playlist st \<noteq> []"
    and "0 \<le> currentTrackIndex st"
    and "currentTrackIndex st < int (length (playlist st))"
    and "track_id (playlist st ! nat (currentTrackIndex st))
           \<notin> track_id ` set (take (nat (currentTrackIndex st)) (playlist st))"
  shows "let c = currentTrackIndex st;
             st' = removeTrack (track_id (playlist st ! nat c)) st
         in currentTrackIndex (stop st) = - 1
          \<and> \<not> currentTrackIndex (stop st) > c
          \<and> currentTrackIndex st' = - 1
          \<and> paused (audio st') \<and> currentTime (audio st') = 0
          \<and> playlist st' = splice1 c (playlist st)
          \<and> emitted st' = emitted st @ [Stop, Trackremoved (track_id (playlist st ! nat c))]"
proof -
  let ?c = "currentTrackIndex st"
  have "nat ?c < length (playlist st)" using assms(2,3) by simp
  then have "findIndex (\<lambda>t. track_id t = track_id (playlist st ! nat ?c)) (playlist st)
      = int (nat ?c)"
    using assms(4) by (rule findIndex_no_earlier)
  then have i: "findIndex (\<lambda>t. track_id t = track_id (playlist st ! nat ?c)) (playlist st) = ?c"
    using assms(2) by simp
  show ?thesis
    using assms(2)
    by (simp add: Let_def removeTrack_def i stop_def emit_def audio_pause_def
        savePlaylist_fields)
qed

theorem removeTrack_current_witness:
  "playlist (sample_player 1 RepeatNone open_storage) \<noteq> []
   \<and> 0 \<le> currentTrackIndex (sample_player 1 RepeatNone open_storage)
   \<and> currentTrackIndex (sample_player 1 RepeatNone open_storage)
       < int (length (playlist (sample_player 1 RepeatNone open_storage)))
   \<and> track_id (playlist (sample_player 1 RepeatNone open_storage)
        ! nat (currentTrackIndex (sample_player 1 RepeatNone open_storage)))
       \<notin> track_id ` set (take (nat (currentTrackIndex (sample_player 1 RepeatNone open_storage)))
                            (playlist (sample_player 1 RepeatNone open_storage)))
   \<and> currentTrackIndex (removeTrack 2 (sample_player 1 RepeatNone open_storage)) = - 1
   \<and> paused (audio (removeTrack 2 (sample_player 1 RepeatNone open_storage)))
   \<and> playlist (removeTrack 2 (sample_player 1 RepeatNone open_storage)) = [song 1, song 3]
   \<and> emitted (removeTrack 2 (sample_player 1 RepeatNone open_storage))
       = [Stop, Trackremoved 2]"
proof -
  let ?st = "sample_player 1 RepeatNone open_storage"
  have h1: "playlist ?st \<noteq> []" by (simp add: sample_player_def)
  have h2: "0 \<le> currentTrackIndex ?st" by (simp add: sample_player_def)
  have h3: "currentTrackIndex ?st < int (length (playlist ?st))"
    by (simp add: sample_player_def)
  have h4: "track_id (playlist ?st ! nat (currentTrackIndex ?st))
              \<notin> track_id ` set (take (nat (currentTrackIndex ?st)) (playlist ?st))"
    by (simp add: sample_player_def song_def)
  have e: "track_id (playlist ?st ! nat (currentTrackIndex ?st)) = 2"
    by (simp add: sample_player_def song_def)
  have s: "splice1 (currentTrackIndex ?st) (playlist ?st) = [song 1, song 3]"
    by (simp add: sample_player_def splice1_def)
  have m: "emitted ?st = []" by (simp add: sample_player_def)
  from removeTrack_current [OF h1 h2 h3 h4] have
    "currentTrackIndex (removeTrack 2 ?st) = - 1
     \<and> paused (audio (removeTrack 2 ?st))
     \<and> playlist (removeTrack 2 ?st) = [song 1, song 3]
     \<and> emitted (removeTrack 2 ?st) = [Stop, Trackremoved 2]"
    by (simp add: Let_def e s m)
  with h1 h2 h3 h4 show ?thesis by blast
qed

text \<open>
  C3 as stated, for every playlist the player can hold, fails: with two entries of the
  same id and the second one playing, \<open>removeTrack\<close> with the id of the playing track
  finds the first entry, does not stop, and leaves the cursor on index 0 with the
  element still playing.
\<close>

theorem removeTrack_current_twin:
  "playlist twin_player \<noteq> []
   \<and> currentTrackIndex twin_player = 1
   \<and> currentTrackIndex (removeTrack (track_id (playlist twin_player ! 1)) twin_player) = 0
   \<and> currentTrackIndex (removeTrack (track_id (playlist twin_player ! 1)) twin_player) \<noteq> - 1
   \<and> \<not> paused (audio (removeTrack (track_id (playlist twin_player ! 1)) twin_player))
   \<and> Stop \<notin> set (emitted (removeTrack (track_id (playlist twin_player ! 1)) twin_player))"
  by (simp add: twin_player_def addTrack_def desktop_file_def empty_player_def emit_def
      savePlaylist_fields Let_def playTrack_def audio_play_def new_Audio_def removeTrack_def)

subsection \<open>Moving the cursor\<close>

text \<open>
  C4: in a non-empty playlist with shuffle off and the cursor on the last index, \<open>next\<close>
  plays track 0 when the repeat mode is \<open>all\<close>; when it is \<open>none\<close> or \<open>one\<close>, \<open>next\<close> is
  \<open>stop\<close>: the cursor becomes -1, the element is paused, \<open>stop\<close> is the only event and no
  track is played.
\<close>

theorem next_at_last_index:
  assumes "playlist st \<noteq> []" and "\<not> shuffle st"
    and "currentTrackIndex st = int (length (playlist st)) - 1"
  shows "(repeat st = RepeatAll \<longrightarrow>
            next_track rnd st = playTrack 0 st
          \<and> currentTrackIndex (next_track rnd st) = 0
          \<and> emitted (next_track rnd st) = emitted st @ [Trackchange (playlist st ! 0) 0])
       \<and> (repeat st = RepeatNone \<or> repeat st = RepeatOne \<longrightarrow>
            next_track rnd st = stop st
          \<and> currentTrackIndex (next_track rnd st) = - 1
          \<and> paused (audio (next_track rnd st))
          \<and> emitted (next_track rnd st) = emitted st @ [Stop])"
  using assms
  by (auto simp: next_track_def playTrack_def stop_def emit_def Let_def audio_pause_def)

theorem next_at_last_index_witness:
  "playlist (sample_player 2 RepeatAll open_storage) \<noteq> []
   \<and> \<not> shuffle (sample_player 2 RepeatAll open_storage)
   \<and> currentTrackIndex (sample_player 2 RepeatAll open_storage)
       = int (length (playlist (sample_player 2 RepeatAll open_storage))) - 1
   \<and> currentTrackIndex (next_track 0 (sample_player 2 RepeatAll open_storage)) = 0
   \<and> emitted (next_track 0 (sample_player 2 RepeatAll open_storage))
       = [Trackchange (song 1) 0]"
proof -
  let ?st = "sample_player 2 RepeatAll open_storage"
  have h1: "playlist ?st \<noteq> []" by (simp add: sample_player_def)
  have h2: "\<not> shuffle ?st" by (simp add: sample_player_def)
  have h3: "currentTrackIndex ?st = int (length (playlist ?st)) - 1"
    by (simp add: sample_player_def)
  have r: "repeat ?st = RepeatAll" by (simp add: sample_player_def)
  have m: "emitted ?st = []" "playlist ?st ! 0 = song 1" by (simp_all add: sample_player_def)
  from next_at_last_index [OF h1 h2 h3, of 0] r have
    "currentTrackIndex (next_track 0 ?st) = 0
     \<and> emitted (next_track 0 ?st) = emitted ?st @ [Trackchange (playlist ?st ! 0) 0]"
    by blast
  with h1 h2 h3 show ?thesis by (simp add: m)
qed

text \<open>
  C5: in a non-empty playlist with at most 3 seconds elapsed and the cursor on index 0,
  \<open>previous\<close> puts the cursor on the last index when the repeat mode is \<open>all\<close>; in the
  other modes it plays track 0 again: the cursor stays 0, the only event is
  \<open>trackchange\<close> for track 0 (no \<open>stop\<close>) and the element is not paused.
\<close>

theorem previous_at_first_index:
  assumes "playlist st \<noteq> []" and "currentTime (audio st) \<le> 3"
    and "currentTrackIndex st = 0"
  shows "(repeat st = RepeatAll \<longrightarrow>
            currentTrackIndex (previous st) = int (length (playlist st)) - 1)
       \<and> (repeat st \<noteq> RepeatAll \<longrightarrow>
            currentTrackIndex (previous st) = 0
          \<and> previous st = playTrack 0 st
          \<and> \<not> paused (audio (previous st))
          \<and> emitted (previous st) = emitted st @ [Trackchange (playlist st ! 0) 0])"
proof -
  let ?n = "int (length (playlist st))"
  let ?i = "if repeat st = RepeatAll then ?n - 1 else 0"
  have p: "previous st = playTrack ?i st"
    using assms by (simp add: previous_underflow)
  have v: "0 \<le> ?i" "?i < ?n"
    using assms(1) by auto
  note f = playTrack_valid [OF v]
  show ?thesis
  proof (cases "repeat st = RepeatAll")
    case True
    with p f(1) show ?thesis by simp
  next
    case False
    with p f(1,2,3) show ?thesis by simp
  qed
qed

theorem previous_at_first_index_witness:
  "playlist (sample_player 0 RepeatOne open_storage) \<noteq> []
   \<and> currentTime (audio (sample_player 0 RepeatOne open_storage)) \<le> 3
   \<and> currentTrackIndex (sample_player 0 RepeatOne open_storage) = 0
   \<and> currentTrackIndex (previous (sample_player 0 RepeatOne open_storage)) = 0
   \<and> emitted (previous (sample_player 0 RepeatOne open_storage)) = [Trackchange (song 1) 0]"
proof -
  let ?st = "sample_player 0 RepeatOne open_storage"
  have h1: "playlist ?st \<noteq> []" by (simp add: sample_player_def)
  have h2: "currentTime (audio ?st) \<le> 3" by (simp add: sample_player_def)
  have h3: "currentTrackIndex ?st = 0" by (simp add: sample_player_def)
  have r: "repeat ?st \<noteq> RepeatAll" by (simp add: sample_player_def)
  have m: "emitted ?st = []" "playlist ?st ! 0 = song 1" by (simp_all add: sample_player_def)
  from previous_at_first_index [OF h1 h2 h3] r have
    "currentTrackIndex (previous ?st) = 0
     \<and> emitted (previous ?st) = emitted ?st @ [Trackchange (playlist ?st ! 0) 0]"
    by blast
  with h1 h2 h3 show ?thesis by (simp add: m)
qed

text \<open>
  C8: in a non-empty playlist with the cursor at the sentinel -1 and at most 3 seconds
  elapsed, \<open>previous\<close> is not a no-op. The sentinel minus one is below 0, so it plays
  the last track when the repeat mode is \<open>all\<close> and track 0 otherwise: the cursor
  is set, \<open>trackchange\<close> is emitted and the element is not paused.
\<close>

theorem previous_from_sentinel:
  assumes "playlist st \<noteq> []" and "currentTime (audio st) \<le> 3"
    and "currentTrackIndex st = - 1"
  shows "previous st \<noteq> st
       \<and> \<not> paused (audio (previous st))
       \<and> (repeat st = RepeatAll \<longrightarrow>
            previous st = playTrack (int (length (playlist st)) - 1) st
          \<and> currentTrackIndex (previous st) = int (length (playlist st)) - 1
          \<and> emitted (previous st) = emitted st @
              [Trackchange (last (playlist st)) (int (length (playlist st)) - 1)])
       \<and> (repeat st \<noteq> RepeatAll \<longrightarrow>
            previous st = playTrack 0 st
          \<and> currentTrackIndex (previous st) = 0
          \<and> emitted (previous st) = emitted st @ [Trackchange (playlist st ! 0) 0])"
proof -
  let ?n = "int (length (playlist st))"
  let ?i = "if repeat st = RepeatAll then ?n - 1 else 0"
  have p: "previous st = playTrack ?i st"
    using assms by (simp add: previous_underflow)
  have v: "0 \<le> ?i" "?i < ?n"
    using assms(1) by auto
  note f = playTrack_valid [OF v]
  have "nat (?n - 1) = length (playlist st) - 1" by arith
  then have l: "playlist st ! nat (?n - 1) = last (playlist st)"
    using assms(1) by (simp add: last_conv_nth)
  have "emitted (previous st) \<noteq> emitted st"
    unfolding p f(2) by simp
  then have ne: "previous st \<noteq> st" by auto
  have a: "\<not> paused (audio (previous st))"
    unfolding p by (rule f(3))
  have all: "repeat st = RepeatAll \<Longrightarrow>
          previous st = playTrack (?n - 1) st
        \<and> currentTrackIndex (previous st) = ?n - 1
        \<and> emitted (previous st) = emitted st @ [Trackchange (last (playlist st)) (?n - 1)]"
    using p f(1,2) l by simp
  have oth: "repeat st \<noteq> RepeatAll \<Longrightarrow>
          previous st = playTrack 0 st
        \<and> currentTrackIndex (previous st) = 0
        \<and> emitted (previous st) = emitted st @ [Trackchange (playlist st ! 0) 0]"
    using p f(1,2) by simp
  from ne a all oth show ?thesis by blast
qed

theorem previous_from_sentinel_witness:
  "playlist (stop (sample_player 1 RepeatAll open_storage)) \<noteq> []
   \<and> currentTime (audio (stop (sample_player 1 RepeatAll open_storage))) \<le> 3
   \<and> currentTrackIndex (stop (sample_player 1 RepeatAll open_storage)) = - 1
   \<and> currentTrackIndex (previous (stop (sample_player 1 RepeatAll open_storage))) = 2
   \<and> emitted (previous (stop (sample_player 1 RepeatAll open_storage)))
       = [Stop, Trackchange (song 3) 2]
   \<and> \<not> paused (audio (previous (stop (sample_player 1 RepeatAll open_storage))))"
proof -
  let ?st = "stop (sample_player 1 RepeatAll open_storage)"
  have h1: "playlist ?st \<noteq> []" by (simp add: sample_player_def stop_def emit_def)
  have h2: "currentTime (audio ?st) \<le> 3" by (simp add: sample_player_def stop_def emit_def)
  have h3: "currentTrackIndex ?st = - 1" by (simp add: sample_player_def stop_def emit_def)
  have r: "repeat ?st = RepeatAll" by (simp add: sample_player_def stop_def emit_def)
  have m: "emitted ?st = [Stop]" "last (playlist ?st) = song 3"
    "int (length (playlist ?st)) - 1 = 2"
    by (simp_all add: sample_player_def stop_def emit_def)
  from previous_from_sentinel [OF h1 h2 h3] r have
    "\<not> paused (audio (previous ?st))
     \<and> currentTrackIndex (previous ?st) = int (length (playlist ?st)) - 1
     \<and> emitted (previous ?st) = emitted ?st @
              [Trackchange (last (playlist ?st)) (int (length (playlist ?st)) - 1)]"
    by blast
  with h1 h2 h3 show ?thesis by (simp add: m)
qed

subsection \<open>Playing a track\<close>

text \<open>
  C6: for an index inside the playlist, \<open>playTrack\<close> has emitted \<open>trackchange\<close> with the
  track and the index when it returns, whatever becomes of the promise of \<open>play()\<close>.
  When the promise is rejected later, the handler adds an \<open>error\<close> event whose message
  is \<open>Failed to play track: \<close> followed by the message of the rejection, after the
  \<open>trackchange\<close>; it changes nothing else, so the cursor is still the index and the
  source of the element is still the one of the track.
\<close>

theorem playTrack_then_rejected:
  assumes "0 \<le> index" and "index < int (length (playlist st))"
  shows "emitted (playTrack index st) = emitted st @ [Trackchange (playlist st ! nat index) index]
       \<and> emitted (playTrack_catch message (playTrack index st))
           = emitted st @ [Trackchange (playlist st ! nat index) index,
                           Error (''Failed to play track: '' @ message)]
       \<and> currentTrackIndex (playTrack_catch message (playTrack index st)) = index
       \<and> src (audio (playTrack_catch message (playTrack index st)))
           = (if truthy (path (playlist st ! nat index)) then path (playlist st ! nat index)
              else data (playlist st ! nat index))
       \<and> (\<forall>st'. playTrack_catch message st'
                 = st'\<lparr>emitted := emitted st' @ [Error (''Failed to play track: '' @ message)]\<rparr>)"
  using assms
  by (simp add: playTrack_def playTrack_catch_def emit_def Let_def audio_play_def)

theorem playTrack_then_rejected_witness:
  "(0::int) \<le> 1
   \<and> 1 < int (length (playlist (sample_player 0 RepeatNone open_storage)))
   \<and> emitted (playTrack 1 (sample_player 0 RepeatNone open_storage))
       = [Trackchange (song 2) 1]
   \<and> emitted (playTrack_catch ''NotSupportedError''
               (playTrack 1 (sample_player 0 RepeatNone open_storage)))
       = [Trackchange (song 2) 1, Error ''Failed to play track: NotSupportedError'']
   \<and> currentTrackIndex (playTrack_catch ''NotSupportedError''
               (playTrack 1 (sample_player 0 RepeatNone open_storage))) = 1
   \<and> src (audio (playTrack_catch ''NotSupportedError''
               (playTrack 1 (sample_player 0 RepeatNone open_storage))))
       = Some ''/music/song.mp3''"
proof -
  let ?st = "sample_player 0 RepeatNone open_storage"
  have h1: "(0::int) \<le> 1" by simp
  have h2: "1 < int (length (playlist ?st))" by (simp add: sample_player_def)
  have m: "emitted ?st = []" "playlist ?st ! nat 1 = song 2"
    by (simp_all add: sample_player_def)
  have t: "truthy (path (song 2))" "path (song 2) = Some ''/music/song.mp3''"
    by (simp_all add: song_def)
  note f = playTrack_then_rejected [OF h1 h2, of "''NotSupportedError''", unfolded m]
  from f have a: "emitted (playTrack 1 ?st) = [] @ [Trackchange (song 2) 1]" by blast
  from f have b: "emitted (playTrack_catch ''NotSupportedError'' (playTrack 1 ?st))
      = [] @ [Trackchange (song 2) 1, Error (''Failed to play track: '' @ ''NotSupportedError'')]"
    by blast
  from f have c: "currentTrackIndex (playTrack_catch ''NotSupportedError'' (playTrack 1 ?st)) = 1"
    by blast
  from f have d: "src (audio (playTrack_catch ''NotSupportedError'' (playTrack 1 ?st)))
      = (if truthy (path (song 2)) then path (song 2) else data (song 2))"
    by blast
  from a b c d h1 h2 show ?thesis by (simp add: t)
qed

subsection \<open>Persistence\<close>

text \<open>
  C7: when the store takes the full record (it is not denied and accepts the write under
  the primary key, so the fallback does not run), \<open>loadPlaylist\<close> on what \<open>savePlaylist\<close>
  left in the store gives the saved tracks again, the same records in the same order:
  the same ids, names, file names, paths and data. This holds for a load into any
  player and for the constructor after a restart.
\<close>

theorem save_then_load:
  assumes "\<not> denied (localStorage st)"
    and "accepts (localStorage st) ''pomop-music-playlist''
           (JSON_stringify (JArr (map json_of_track (playlist st))))"
  shows "loadPlaylist (p0\<lparr>localStorage := localStorage (savePlaylist st)\<rparr>)
           = Some (p0\<lparr>localStorage := localStorage (savePlaylist st), playlist := playlist st\<rparr>)
       \<and> map_option playlist (MusicPlayer (localStorage (savePlaylist st))) = Some (playlist st)
       \<and> map_option (map track_id \<circ> playlist) (MusicPlayer (localStorage (savePlaylist st)))
           = Some (map track_id (playlist st))
       \<and> map_option (map name \<circ> playlist) (MusicPlayer (localStorage (savePlaylist st)))
           = Some (map name (playlist st))
       \<and> map_option (map fileName \<circ> playlist) (MusicPlayer (localStorage (savePlaylist st)))
           = Some (map fileName (playlist st))
       \<and> map_option (map path \<circ> playlist) (MusicPlayer (localStorage (savePlaylist st)))
           = Some (map path (playlist st))
       \<and> map_option (map data \<circ> playlist) (MusicPlayer (localStorage (savePlaylist st)))
           = Some (map data (playlist st))"
  using assms
  by (simp add: loadPlaylist_def MusicPlayer_def savePlaylist_def setItem_def getItem_def
      JSON_stringify_def tracks_of_jsons_map)

theorem save_then_load_witness:
  "\<not> denied (localStorage mixed_player)
   \<and> accepts (localStorage mixed_player) ''pomop-music-playlist''
       (JSON_stringify (JArr (map json_of_track (playlist mixed_player))))
   \<and> map_option (map track_id \<circ> playlist) (MusicPlayer (localStorage (savePlaylist mixed_player)))
       = Some [1000 + 1 / 2, 1001 + 1 / 4]
   \<and> map_option (map path \<circ> playlist) (MusicPlayer (localStorage (savePlaylist mixed_player)))
       = Some [Some ''/home/u/tune.ogg'', None]
   \<and> map_option (map data \<circ> playlist) (MusicPlayer (localStorage (savePlaylist mixed_player)))
       = Some [None, Some ''data:audio/ogg;base64,T2dnUw=='']"
proof -
  have h1: "\<not> denied (localStorage mixed_player)"
    by (simp add: mixed_player_def addTrack_host empty_player_def open_storage_def)
  have a: "accepts (localStorage mixed_player) = (\<lambda>k v. True)"
    by (simp add: mixed_player_def addTrack_host empty_player_def open_storage_def)
  have h2: "accepts (localStorage mixed_player) ''pomop-music-playlist''
              (JSON_stringify (JArr (map json_of_track (playlist mixed_player))))"
    unfolding a by simp
  have p: "playlist mixed_player =
      [\<lparr>track_id = double (1000 + 1 / 2), name = strip_extension ''tune.ogg'', fileName = ''tune.ogg'',
        path = Some ''/home/u/tune.ogg'', data = None, duration = 0\<rparr>,
       \<lparr>track_id = double (1001 + 1 / 4), name = strip_extension ''tune.ogg'', fileName = ''tune.ogg'',
        path = None, data = Some ''data:audio/ogg;base64,T2dnUw=='', duration = 0\<rparr>]"
    by (simp add: mixed_player_def addTrack_def Let_def emit_def savePlaylist_fields
        empty_player_def desktop_file_def web_file_def)
  note f = save_then_load [OF h1 h2]
  from f have i: "map_option (map track_id \<circ> playlist)
      (MusicPlayer (localStorage (savePlaylist mixed_player)))
      = Some (map track_id (playlist mixed_player))" by blast
  from f have q: "map_option (map path \<circ> playlist)
      (MusicPlayer (localStorage (savePlaylist mixed_player)))
      = Some (map path (playlist mixed_player))" by blast
  from f have d: "map_option (map data \<circ> playlist)
      (MusicPlayer (localStorage (savePlaylist mixed_player)))
      = Some (map data (playlist mixed_player))" by blast
  have "map track_id (playlist mixed_player) = [1000 + 1 / 2, 1001 + 1 / 4]"
    and "map path (playlist mixed_player) = [Some ''/home/u/tune.ogg'', None]"
    and "map data (playlist mixed_player) = [None, Some ''data:audio/ogg;base64,T2dnUw=='']"
    unfolding p by (simp_all add: double_exact)
  with i q d h1 h2 show ?thesis by simp
qed

text \<open>
  C9: when the write under the primary key throws, \<open>savePlaylist\<close> leaves the record
  under the primary key as it was (the metadata go under the secondary key, if at all),
  and a player constructed on that store afterwards has the playlist it would have had
  on the store before the save: \<open>loadPlaylist\<close> reads the primary key only. Whatever
  is put under the secondary key changes nothing of what is loaded, and with no
  primary record the playlist is empty.
\<close>

theorem fallback_never_read:
  assumes "setItem (localStorage st) ''pomop-music-playlist''
             (JSON_stringify (JArr (map json_of_track (playlist st)))) = None"
  shows "items (localStorage (savePlaylist st)) ''pomop-music-playlist''
           = items (localStorage st) ''pomop-music-playlist''
       \<and> map_option playlist (MusicPlayer (localStorage (savePlaylist st)))
           = map_option playlist (MusicPlayer (localStorage st))
       \<and> (\<forall>s v. map_option playlist
                  (MusicPlayer (s\<lparr>items := (items s)(''pomop-music-playlist-meta'' \<mapsto> v)\<rparr>))
               = map_option playlist (MusicPlayer s))
       \<and> (\<forall>s. items s ''pomop-music-playlist'' = None \<longrightarrow>
                map_option playlist (MusicPlayer s) = Some [])"
proof -
  note f = savePlaylist_fallback_storage [OF assms]
  have a: "map_option playlist (MusicPlayer (localStorage (savePlaylist st)))
           = map_option playlist (MusicPlayer (localStorage st))"
    by (rule MusicPlayer_primary_only) (rule f)+
  have b: "\<forall>s v. map_option playlist
                  (MusicPlayer (s\<lparr>items := (items s)(''pomop-music-playlist-meta'' \<mapsto> v)\<rparr>))
               = map_option playlist (MusicPlayer s)"
    by (intro allI MusicPlayer_primary_only) simp_all
  have c: "\<forall>s. items s ''pomop-music-playlist'' = None \<longrightarrow>
                map_option playlist (MusicPlayer s) = Some []"
    by (simp add: MusicPlayer_def loadPlaylist_def getItem_def)
  from f(2) a b c show ?thesis by blast
qed

theorem fallback_never_read_witness:
  "setItem (localStorage (sample_player 0 RepeatNone tight_storage)) ''pomop-music-playlist''
     (JSON_stringify (JArr (map json_of_track
        (playlist (sample_player 0 RepeatNone tight_storage))))) = None
   \<and> items (localStorage (savePlaylist (sample_player 0 RepeatNone tight_storage)))
       ''pomop-music-playlist-meta''
       = Some (JSON_stringify (JArr [metadataOnly (song 1), metadataOnly (song 2),
                                     metadataOnly (song 3)]))
   \<and> map_option playlist
       (MusicPlayer (localStorage (savePlaylist (sample_player 0 RepeatNone tight_storage))))
       = Some [song 9]"
proof -
  let ?st = "sample_player 0 RepeatNone tight_storage"
  have h: "setItem (localStorage ?st) ''pomop-music-playlist''
             (JSON_stringify (JArr (map json_of_track (playlist ?st)))) = None"
    by (simp add: sample_player_def tight_storage_def setItem_def)
  have w: "items (localStorage (savePlaylist ?st)) ''pomop-music-playlist-meta''
       = Some (JSON_stringify (JArr [metadataOnly (song 1), metadataOnly (song 2),
                                     metadataOnly (song 3)]))"
    by (simp add: sample_player_def tight_storage_def setItem_def savePlaylist_def)
  have m: "map_option playlist (MusicPlayer (localStorage ?st)) = Some [song 9]"
    by (simp add: sample_player_def tight_storage_def MusicPlayer_def loadPlaylist_def
        getItem_def JSON_stringify_def track_of_json_of_track)
  from fallback_never_read [OF h] have
    "map_option playlist (MusicPlayer (localStorage (savePlaylist ?st)))
       = map_option playlist (MusicPlayer (localStorage ?st))"
    by blast
  with h w m show ?thesis by simp
qed

subsection \<open>The array \<open>getPlaylist\<close> returns\<close>

text \<open>
  C10: \<open>getPlaylist\<close> returns a new array, at an address other than that of the playlist,
  whose elements are those of the playlist one by one (the same track objects, so it
  reads as the same tracks). Whatever changes are then made to the returned array, the
  array of the playlist, the track objects and so the tracks the player reads stay as
  they were.
\<close>

theorem getPlaylist_fresh_copy:
  assumes "p < length (arrays h)"
  shows "case getPlaylist p h of
           None \<Rightarrow> False
         | Some (r, h') \<Rightarrow>
             r \<noteq> p \<and> arrays h' ! r = arrays h ! p \<and> arrays h' ! p = arrays h ! p
           \<and> objects h' = objects h
           \<and> tracks_at h' r = tracks_at h p
           \<and> (\<forall>fs. arrays (mutates r fs h') ! p = arrays h ! p
                  \<and> objects (mutates r fs h') = objects h
                  \<and> tracks_at (mutates r fs h') p = tracks_at h p)"
proof -
  let ?r = "length (arrays h)"
  let ?h' = "h\<lparr>arrays := arrays h @ [arrays h ! p]\<rparr>"
  have g: "getPlaylist p h = Some (?r, ?h')"
    using assms by (simp add: getPlaylist_def)
  have ne: "p \<noteq> ?r" using assms by simp
  have c: "arrays ?h' ! ?r = arrays h ! p" by simp
  have k: "arrays ?h' ! p = arrays h ! p" using assms by (simp add: nth_append)
  have m: "arrays (mutates ?r fs ?h') ! p = arrays h ! p
         \<and> objects (mutates ?r fs ?h') = objects h
         \<and> tracks_at (mutates ?r fs ?h') p = tracks_at h p" for fs
    using mutates_frame [OF ne, of fs ?h'] k by (simp add: tracks_at_def)
  show ?thesis
    unfolding g using ne c k m by (simp add: tracks_at_def)
qed

theorem getPlaylist_fresh_copy_witness:
  "0 < length (arrays sample_store)
   \<and> map_option fst (getPlaylist 0 sample_store) = Some 1
   \<and> map_option (\<lambda>(r, h'). tracks_at h' r) (getPlaylist 0 sample_store)
       = Some [song 1, song 2]
   \<and> map_option (\<lambda>(r, h'). arrays (mutates r [\<lambda>xs. xs @ [0], \<lambda>xs. tl xs, \<lambda>xs. []] h') ! r)
       (getPlaylist 0 sample_store) = Some []
   \<and> map_option (\<lambda>(r, h'). tracks_at (mutates r [\<lambda>xs. xs @ [0], \<lambda>xs. tl xs, \<lambda>xs. []] h') 0)
       (getPlaylist 0 sample_store) = Some [song 1, song 2]"
proof -
  have h: "0 < length (arrays sample_store)" by (simp add: sample_store_def)
  let ?h' = "sample_store\<lparr>arrays := [[0, 1], [0, 1]]\<rparr>"
  let ?fs = "[\<lambda>xs. xs @ [0], \<lambda>xs. tl xs, \<lambda>xs. []] :: (nat list \<Rightarrow> nat list) list"
  have g: "getPlaylist 0 sample_store = Some (1, ?h')"
    by (simp add: getPlaylist_def sample_store_def)
  have t: "tracks_at sample_store 0 = [song 1, song 2]"
    by (simp add: tracks_at_def sample_store_def)
  note f = getPlaylist_fresh_copy [OF h, unfolded g option.case prod.case t]
  from f have a: "tracks_at ?h' 1 = [song 1, song 2]" by blast
  from f have b: "tracks_at (mutates 1 ?fs ?h') 0 = [song 1, song 2]" by blast
  have c: "arrays (mutates 1 ?fs ?h') ! 1 = []"
    by (simp add: mutate_def sample_store_def)
  have "map_option fst (getPlaylist 0 sample_store) = Some 1"
    and "map_option (\<lambda>(r, h'). tracks_at h' r) (getPlaylist 0 sample_store)
           = Some [song 1, song 2]"
    and "map_option (\<lambda>(r, h'). arrays (mutates r ?fs h') ! r) (getPlaylist 0 sample_store)
           = Some []"
    and "map_option (\<lambda>(r, h'). tracks_at (mutates r ?fs h') 0) (getPlaylist 0 sample_store)
           = Some [song 1, song 2]"
    unfolding g option.map prod.case fst_conv a b c by (rule refl)+
  with h show ?thesis by blast
qed

end
